theory Spec2Isabelle
  imports Complex_Main "HOL-Library.Multiset"
begin

section \<open>JavaScript values used by the CSV engine\<close>

text \<open>
  Strings are modelled as \<open>string\<close> over ASCII: the white space of \<open>trim\<close>,
  \<open>parseFloat\<close> and the regular expression class \<open>\s\<close> is TAB, LF, VT, FF, CR and
  SPACE, and \<open>toLowerCase\<close> maps \<open>A\<close>..\<open>Z\<close> to \<open>a\<close>..\<open>z\<close>; characters
  above 127 are left alone.

  A number is NaN, an infinity, or a finite value. A finite double is modelled by the
  rational it denotes: overflow to an infinity is modelled (\<open>to_double\<close>), rounding of the
  mantissa and the sign of zero are not.
\<close>

datatype jsnum = NaN | PosInf | NegInf | Fin rat

definition dbl_limit :: rat where
  "dbl_limit = 2 ^ 1024 - 2 ^ 970"

definition to_double :: "rat \<Rightarrow> jsnum" where
  "to_double q = (if dbl_limit \<le> q then PosInf else if q \<le> - dbl_limit then NegInf else Fin q)"

definition isNaN :: "jsnum \<Rightarrow> bool" where
  "isNaN v = (v = NaN)"

definition isFinite :: "jsnum \<Rightarrow> bool" where
  "isFinite v = (case v of Fin _ \<Rightarrow> True | _ \<Rightarrow> False)"

fun js_neg :: "jsnum \<Rightarrow> jsnum" where
  "js_neg NaN = NaN"
| "js_neg PosInf = NegInf"
| "js_neg NegInf = PosInf"
| "js_neg (Fin a) = Fin (- a)"

text \<open>The operator \<open>+\<close> on numbers.\<close>

fun js_add :: "jsnum \<Rightarrow> jsnum \<Rightarrow> jsnum" where
  "js_add (Fin a) (Fin b) = to_double (a + b)"
| "js_add NaN _ = NaN"
| "js_add _ NaN = NaN"
| "js_add PosInf NegInf = NaN"
| "js_add NegInf PosInf = NaN"
| "js_add PosInf _ = PosInf"
| "js_add NegInf _ = NegInf"
| "js_add (Fin a) b = b"

text \<open>The operator \<open>-\<close> on numbers.\<close>

definition js_sub :: "jsnum \<Rightarrow> jsnum \<Rightarrow> jsnum" where
  "js_sub a b = js_add a (js_neg b)"

text \<open>The operator \<open>*\<close> on numbers.\<close>

fun js_mul :: "jsnum \<Rightarrow> jsnum \<Rightarrow> jsnum" where
  "js_mul (Fin a) (Fin b) = to_double (a * b)"
| "js_mul NaN _ = NaN"
| "js_mul _ NaN = NaN"
| "js_mul (Fin a) b = (if a = 0 then NaN else if 0 < a then b else js_neg b)"
| "js_mul a (Fin b) = (if b = 0 then NaN else if 0 < b then a else js_neg a)"
| "js_mul a b = (if a = b then PosInf else NegInf)"

text \<open>The operator \<open>/\<close> on numbers.\<close>

fun js_div :: "jsnum \<Rightarrow> jsnum \<Rightarrow> jsnum" where
  "js_div (Fin a) (Fin b) =
     (if b = 0 then (if a = 0 then NaN else if 0 < a then PosInf else NegInf)
      else to_double (a / b))"
| "js_div NaN _ = NaN"
| "js_div _ NaN = NaN"
| "js_div (Fin a) b = Fin 0"
| "js_div a (Fin b) = (if 0 \<le> b then a else js_neg a)"
| "js_div a b = NaN"

text \<open>\<open>Math.min\<close> and \<open>Math.max\<close> of two arguments: NaN if either is NaN.\<close>

fun js_min :: "jsnum \<Rightarrow> jsnum \<Rightarrow> jsnum" where
  "js_min (Fin a) (Fin b) = Fin (min a b)"
| "js_min NaN _ = NaN"
| "js_min _ NaN = NaN"
| "js_min NegInf _ = NegInf"
| "js_min _ NegInf = NegInf"
| "js_min PosInf b = b"
| "js_min a PosInf = a"

fun js_max :: "jsnum \<Rightarrow> jsnum \<Rightarrow> jsnum" where
  "js_max (Fin a) (Fin b) = Fin (max a b)"
| "js_max NaN _ = NaN"
| "js_max _ NaN = NaN"
| "js_max PosInf _ = PosInf"
| "js_max _ PosInf = PosInf"
| "js_max NegInf b = b"
| "js_max a NegInf = a"

text \<open>\<open>Math.round\<close>: the nearest integer, a tie going up.\<close>

fun Math_round :: "jsnum \<Rightarrow> jsnum" where
  "Math_round (Fin a) = Fin (of_int \<lfloor>a + 1 / 2\<rfloor>)"
| "Math_round v = v"

subsection \<open>Characters and strings\<close>

definition isWhiteSpace :: "char \<Rightarrow> bool" where
  "isWhiteSpace c = (c \<in> set [CHR 0x09, CHR 0x0A, CHR 0x0B, CHR 0x0C, CHR 0x0D, CHR '' ''])"

definition isDigit :: "char \<Rightarrow> bool" where
  "isDigit c = (c \<in> set ''0123456789'')"

definition hexVal :: "char \<Rightarrow> nat option" where
  "hexVal c = map_of (zip ''0123456789abcdefABCDEF''
     [0, 1, 2, 3, 4, 5, 6, 7, 8, 9, 10, 11, 12, 13, 14, 15, 10, 11, 12, 13, 14, 15]) c"

definition digitVal :: "char \<Rightarrow> nat" where
  "digitVal c = (case hexVal c of Some d \<Rightarrow> d | None \<Rightarrow> 0)"

definition radixVal :: "nat \<Rightarrow> string \<Rightarrow> nat" where
  "radixVal b ds = foldl (\<lambda>a c. b * a + digitVal c) 0 ds"

text \<open>\<open>String.prototype.trim\<close>.\<close>

definition trim_js :: "string \<Rightarrow> string" where
  "trim_js s = rev (dropWhile isWhiteSpace (rev (dropWhile isWhiteSpace s)))"

text \<open>\<open>String.prototype.toLowerCase\<close>.\<close>

definition lowerChar :: "char \<Rightarrow> char" where
  "lowerChar c = (case map_of (zip ''ABCDEFGHIJKLMNOPQRSTUVWXYZ'' ''abcdefghijklmnopqrstuvwxyz'') c of
     Some l \<Rightarrow> l | None \<Rightarrow> c)"

definition toLowerCase :: "string \<Rightarrow> string" where
  "toLowerCase s = map lowerChar s"

text \<open>\<open>s.replace(a, b)\<close> with a one-character string \<open>a\<close>: the first occurrence only.\<close>

fun replaceFirst :: "char \<Rightarrow> char \<Rightarrow> string \<Rightarrow> string" where
  "replaceFirst a b [] = []"
| "replaceFirst a b (c # cs) = (if c = a then b # cs else c # replaceFirst a b cs)"

text \<open>The decimal representation of a natural number, as a template literal prints it.\<close>

fun nat_to_string :: "nat \<Rightarrow> string" where
  "nat_to_string n =
     (if n < 10 then [''0123456789'' ! n]
      else nat_to_string (n div 10) @ [''0123456789'' ! (n mod 10)])"

subsection \<open>\<open>parseFloat\<close> and \<open>Number\<close> on strings\<close>

definition pow10 :: "int \<Rightarrow> rat" where
  "pow10 e = (if 0 \<le> e then 10 ^ nat e else 1 / 10 ^ nat (- e))"

text \<open>
  ExponentPart: \<open>e\<close> or \<open>E\<close>, an optional sign, at least one digit. Without a digit
  the exponent is not part of the literal and the text is handed back untouched.
\<close>

definition scanExponent :: "string \<Rightarrow> int \<times> string" where
  "scanExponent s =
     (case s of
        [] \<Rightarrow> (0, s)
      | c # r \<Rightarrow>
          if c = CHR ''e'' \<or> c = CHR ''E'' then
            (let (neg, r') =
                   (case r of
                      [] \<Rightarrow> (False, r)
                    | d # t \<Rightarrow> if d = CHR ''-'' then (True, t)
                               else if d = CHR ''+'' then (False, t) else (False, r));
                 ds = takeWhile isDigit r'
             in if ds = [] then (0, s)
                else (if neg then - int (radixVal 10 ds) else int (radixVal 10 ds),
                      dropWhile isDigit r'))
          else (0, s))"

text \<open>
  The longest prefix that is a StrUnsignedDecimalLiteral, with its value and the rest of
  the text: \<open>Infinity\<close>, digits with an optional fraction, or a fraction alone, then an
  optional exponent.
\<close>

definition scanUnsigned :: "string \<Rightarrow> (jsnum \<times> string) option" where
  "scanUnsigned s =
     (if take 8 s = ''Infinity'' then Some (PosInf, drop 8 s)
      else
        let ip = takeWhile isDigit s;
            r1 = dropWhile isDigit s;
            (fp, r2) =
              (case r1 of
                 [] \<Rightarrow> ([], r1)
               | c # t \<Rightarrow> if c = CHR ''.'' then (takeWhile isDigit t, dropWhile isDigit t)
                          else ([], r1))
        in if ip = [] \<and> fp = [] then None
           else
             let (e, r3) = scanExponent r2
             in Some (to_double (of_nat (radixVal 10 (ip @ fp)) * pow10 (e - int (length fp))), r3))"

definition scanDecimal :: "string \<Rightarrow> (jsnum \<times> string) option" where
  "scanDecimal s =
     (case s of
        [] \<Rightarrow> None
      | c # r \<Rightarrow>
          if c = CHR ''-'' then map_option (\<lambda>(v, t). (js_neg v, t)) (scanUnsigned r)
          else if c = CHR ''+'' then scanUnsigned r
          else scanUnsigned s)"

text \<open>
  \<open>parseFloat\<close>: leading white space is skipped, the longest prefix that is a decimal
  literal is read, and what follows it is ignored; NaN when there is no such prefix.
\<close>

definition parseFloat :: "string \<Rightarrow> jsnum" where
  "parseFloat s =
     (case scanDecimal (dropWhile isWhiteSpace s) of
        None \<Rightarrow> NaN
      | Some (v, _) \<Rightarrow> v)"

text \<open>A NonDecimalIntegerLiteral: \<open>0x\<close>, \<open>0o\<close> or \<open>0b\<close> and at least one digit of that radix.\<close>

definition scanRadix :: "nat \<Rightarrow> string \<Rightarrow> jsnum option" where
  "scanRadix b ds =
     (if ds \<noteq> [] \<and> list_all (\<lambda>c. case hexVal c of Some d \<Rightarrow> d < b | None \<Rightarrow> False) ds
      then Some (to_double (of_nat (radixVal b ds)))
      else None)"

definition scanNonDecimal :: "string \<Rightarrow> jsnum option" where
  "scanNonDecimal s =
     (case s of
        z # p # ds \<Rightarrow>
          if z \<noteq> CHR ''0'' then None
          else if p = CHR ''x'' \<or> p = CHR ''X'' then scanRadix 16 ds
          else if p = CHR ''o'' \<or> p = CHR ''O'' then scanRadix 8 ds
          else if p = CHR ''b'' \<or> p = CHR ''B'' then scanRadix 2 ds
          else None
      | _ \<Rightarrow> None)"

text \<open>
  \<open>Number(s)\<close> on a string: the trimmed text must be a numeric literal as a whole; the
  empty text is 0.
\<close>

definition Number_js :: "string \<Rightarrow> jsnum" where
  "Number_js s =
     (let t = trim_js s
      in if t = [] then Fin 0
         else case scanNonDecimal t of
                Some v \<Rightarrow> v
              | None \<Rightarrow> (case scanDecimal t of
                           Some (v, []) \<Rightarrow> v
                         | _ \<Rightarrow> NaN))"

text \<open>Reading \<open>row[i] ?? d\<close>: an index past the end of the row gives \<open>undefined\<close>.\<close>

definition cell_or :: "string list \<Rightarrow> nat \<Rightarrow> string \<Rightarrow> string" where
  "cell_or row i d = (if i < length row then row ! i else d)"

section \<open>csv-parser.ts\<close>

datatype ColumnType = TString | TNumber | TDate | TBoolean

record CSVColumn =
  name :: string
  type :: ColumnType
  index :: nat

record CSVData =
  headers :: "string list"
  rows :: "string list list"
  columns :: "CSVColumn list"
  rowCount :: nat

record CSVSettings =
  delimiter :: string
  hasHeader :: bool
  encoding :: string
  skipEmptyLines :: bool

subsection \<open>detectDelimiter\<close>

definition countChar :: "char \<Rightarrow> string \<Rightarrow> nat" where
  "countChar d sample = length (filter (\<lambda>c. c = d) sample)"

text \<open>
  \<open>counts.reduce((a, b) => (a.count > b.count ? a : b))\<close>: the later candidate wins a tie.
\<close>

definition detectDelimiter :: "string \<Rightarrow> string" where
  "detectDelimiter sample =
     (let delimiters = [CHR '','', CHR '';'', CHR 0x09, CHR ''|''];
          counts = map (\<lambda>d. (d, countChar d sample)) delimiters;
          best = foldl (\<lambda>a b. if snd a > snd b then a else b) (hd counts) (tl counts)
      in if snd best > 0 then [fst best] else '','')"

subsection \<open>inferColumnType\<close>

definition booleanValues :: "string list" where
  "booleanValues = [''true'', ''false'', ''yes'', ''no'', ''1'', ''0'', ''oui'', ''non'']"

definition isBooleanCell :: "string \<Rightarrow> bool" where
  "isBooleanCell v = (trim_js (toLowerCase v) \<in> set booleanValues)"

text \<open>\<open>v.replace(/[\s,]/g, "").replace(",", ".")\<close>\<close>

definition cleanNumber :: "string \<Rightarrow> string" where
  "cleanNumber v =
     replaceFirst (CHR '','') (CHR ''.'') (filter (\<lambda>c. \<not> (isWhiteSpace c \<or> c = CHR '','')) v)"

definition isNumberCell :: "string \<Rightarrow> bool" where
  "isNumberCell v =
     (let cleaned = cleanNumber v
      in \<not> isNaN (parseFloat cleaned) \<and> isFinite (Number_js cleaned))"

text \<open>
  The date patterns are anchored sequences of \<open>\d\<close> and literal characters, so a text
  matches one when it has the pattern's length and agrees with it position by position.
\<close>

datatype pat = D | L char

fun matchPat :: "pat list \<Rightarrow> string \<Rightarrow> bool" where
  "matchPat [] [] = True"
| "matchPat (D # ps) (c # cs) = (isDigit c \<and> matchPat ps cs)"
| "matchPat (L a # ps) (c # cs) = (c = a \<and> matchPat ps cs)"
| "matchPat _ _ = False"

definition datePatterns :: "pat list list" where
  "datePatterns =
     [[D, D, D, D, L (CHR ''-''), D, D, L (CHR ''-''), D, D],
      [D, D, L (CHR ''/''), D, D, L (CHR ''/''), D, D, D, D],
      [D, D, L (CHR ''-''), D, D, L (CHR ''-''), D, D, D, D],
      [D, D, D, D, L (CHR ''/''), D, D, L (CHR ''/''), D, D]]"

definition isDateCell :: "string \<Rightarrow> bool" where
  "isDateCell v = list_ex (\<lambda>pattern. matchPat pattern (trim_js v)) datePatterns"

definition sampleOf :: "string list \<Rightarrow> string list" where
  "sampleOf values =
     (let sampleSize = min (length values) 100
      in filter (\<lambda>v. trim_js v \<noteq> []) (take sampleSize values))"

definition inferColumnType :: "string list \<Rightarrow> ColumnType" where
  "inferColumnType values =
     (let sample = sampleOf values
      in if length sample = 0 then TString
         else if list_all isBooleanCell sample then TBoolean
         else if list_all isNumberCell sample then TNumber
         else if list_all isDateCell sample then TDate
         else TString)"

subsection \<open>parseCSV\<close>

text \<open>
  \<open>Papa.parse\<close> belongs to the papaparse library, not to this repository. The Row
  Parser is therefore a parameter \<open>papa\<close>: from the text, the delimiter and the
  \<open>skipEmptyLines\<close> flag to \<open>result.data\<close>, the parsed rows.
\<close>

type_synonym row_parser = "string \<Rightarrow> string \<Rightarrow> bool \<Rightarrow> string list list"

definition columnName :: "nat \<Rightarrow> string" where
  "columnName i = ''Column '' @ nat_to_string (i + 1)"

definition mkHeaders :: "bool \<Rightarrow> string list \<Rightarrow> string list" where
  "mkHeaders withHeader firstRow =
     (if withHeader
      then map (\<lambda>(h, i). if trim_js h \<noteq> [] then trim_js h else columnName i)
             (zip firstRow [0 ..< length firstRow])
      else map (\<lambda>(h, i). columnName i) (zip firstRow [0 ..< length firstRow]))"

definition mkColumns :: "string list \<Rightarrow> string list list \<Rightarrow> CSVColumn list" where
  "mkColumns hs dataRows =
     map (\<lambda>(nm, idx).
            \<lparr>name = nm,
             type = inferColumnType (map (\<lambda>row. cell_or row idx []) dataRows),
             index = idx\<rparr>)
         (zip hs [0 ..< length hs])"

definition usedDelimiter :: "string \<Rightarrow> CSVSettings \<Rightarrow> string" where
  "usedDelimiter content settings =
     (if delimiter settings \<noteq> [] then delimiter settings
      else detectDelimiter (take 2000 content))"

text \<open>\<open>parseCSV\<close> from \<open>const allRows = result.data\<close> on.\<close>

definition datasetOfRows :: "bool \<Rightarrow> string list list \<Rightarrow> CSVData" where
  "datasetOfRows withHeader allRows =
     (if length allRows = 0
      then \<lparr>headers = [], rows = [], columns = [], rowCount = 0\<rparr>
      else
        let firstRow = (case allRows of [] \<Rightarrow> [] | r # _ \<Rightarrow> r);
            hs = mkHeaders withHeader firstRow;
            dataRows = (if withHeader then drop 1 allRows else allRows)
        in \<lparr>headers = hs, rows = dataRows, columns = mkColumns hs dataRows,
            rowCount = length dataRows\<rparr>)"

definition parseCSV :: "row_parser \<Rightarrow> string \<Rightarrow> CSVSettings \<Rightarrow> CSVData" where
  "parseCSV papa content settings =
     datasetOfRows (hasHeader settings)
       (papa content (usedDelimiter content settings) (skipEmptyLines settings))"

section \<open>ChartDisplay.tsx: processChartData\<close>

datatype AggregationType = AggSum | AggAvg | AggCount | AggMin | AggMax | AggNone

datatype SortOrder = SortNone | SortAsc | SortDesc

text \<open>Of a chart suggestion, \<open>processChartData\<close> reads these three fields only.\<close>

record ChartSuggestion =
  xAxis :: string
  yAxis :: string
  aggregation :: AggregationType

text \<open>
  A \<open>ChartDataPoint\<close> is a \<open>Record<string, string | number>\<close>; the accumulator
  of a group is the object stored in the \<open>Map\<close>. Both containers are association
  lists here, in insertion order (the order \<open>Map.forEach\<close> follows; the order of the
  keys of a point is never read); \<open>upsert\<close> is \<open>Map.set\<close> and the assignment of an
  object's property: an existing key keeps its place.
\<close>

datatype jsval = Str string | Num jsnum

type_synonym ChartDataPoint = "(string \<times> jsval) list"

record GroupStats =
  g_sum :: jsnum
  g_count :: nat
  g_min :: jsnum
  g_max :: jsnum

type_synonym groups = "(string \<times> GroupStats) list"

fun upsert :: "(string \<times> 'v) list \<Rightarrow> string \<Rightarrow> 'v \<Rightarrow> (string \<times> 'v) list" where
  "upsert [] k v = [(k, v)]"
| "upsert ((k', v') # kvs) k v =
     (if k' = k then (k, v) # kvs else (k', v') # upsert kvs k v)"

text \<open>The object literal \<open>{ [xCol]: xv, [yCol]: yv }\<close>: with equal keys the second wins.\<close>

definition mkPoint :: "string \<Rightarrow> jsval \<Rightarrow> string \<Rightarrow> jsnum \<Rightarrow> ChartDataPoint" where
  "mkPoint xCol xv yCol yv = upsert (upsert [] xCol xv) yCol (Num yv)"

text \<open>
  \<open>item[yCol] as number\<close> where a number is needed (the global \<open>isNaN\<close>, the operator
  \<open>-\<close>): the cast does nothing at run time, a string is converted by \<open>Number\<close>, a
  missing property is \<open>undefined\<close> and converts to NaN.
\<close>

definition pointNum :: "string \<Rightarrow> ChartDataPoint \<Rightarrow> jsnum" where
  "pointNum yCol p =
     (case map_of p yCol of
        Some (Num n) \<Rightarrow> n
      | Some (Str s) \<Rightarrow> Number_js s
      | None \<Rightarrow> NaN)"

definition findColumn :: "string \<Rightarrow> CSVColumn list \<Rightarrow> CSVColumn option" where
  "findColumn axis cols = find (\<lambda>c. toLowerCase (name c) = toLowerCase axis) cols"

text \<open>The body of \<open>data.rows.forEach\<close> in aggregated mode, on one row.\<close>

definition groupRow :: "bool \<Rightarrow> nat \<Rightarrow> nat option \<Rightarrow> groups \<Rightarrow> string list \<Rightarrow> groups" where
  "groupRow isCountMode xIdx yIdx gs row =
     (let xVal = trim_js (cell_or row xIdx [])
      in if xVal = [] then gs
         else if isCountMode then
           (let current = (case map_of gs xVal of
                             Some g \<Rightarrow> g
                           | None \<Rightarrow> \<lparr>g_sum = Fin 0, g_count = 0, g_min = Fin 0, g_max = Fin 0\<rparr>)
            in upsert gs xVal (current\<lparr>g_count := g_count current + 1\<rparr>))
         else
           (case yIdx of
              None \<Rightarrow> gs
            | Some yi \<Rightarrow>
                let yVal = parseFloat (cell_or row yi ''0'')
                in if \<not> isNaN yVal then
                     (let current = (case map_of gs xVal of
                                       Some g \<Rightarrow> g
                                     | None \<Rightarrow> \<lparr>g_sum = Fin 0, g_count = 0,
                                                g_min = PosInf, g_max = NegInf\<rparr>)
                      in upsert gs xVal
                           \<lparr>g_sum = js_add (g_sum current) yVal,
                            g_count = g_count current + 1,
                            g_min = js_min (g_min current) yVal,
                            g_max = js_max (g_max current) yVal\<rparr>)
                   else gs))"

definition buildGroups :: "bool \<Rightarrow> nat \<Rightarrow> nat option \<Rightarrow> string list list \<Rightarrow> groups" where
  "buildGroups isCountMode xIdx yIdx rws = foldl (groupRow isCountMode xIdx yIdx) [] rws"

text \<open>The \<open>switch\<close> of \<open>groups.forEach\<close>.\<close>

definition groupValue :: "AggregationType \<Rightarrow> GroupStats \<Rightarrow> jsnum" where
  "groupValue agg stats =
     (case agg of
        AggSum \<Rightarrow> g_sum stats
      | AggAvg \<Rightarrow> if g_count stats > 0 then js_div (g_sum stats) (Fin (of_nat (g_count stats)))
                  else Fin 0
      | AggCount \<Rightarrow> Fin (of_nat (g_count stats))
      | AggMin \<Rightarrow> if g_min stats = PosInf then Fin 0 else g_min stats
      | AggMax \<Rightarrow> if g_max stats = NegInf then Fin 0 else g_max stats
      | AggNone \<Rightarrow> g_sum stats)"

text \<open>\<open>Math.round(value * 100) / 100\<close>\<close>

definition round2 :: "jsnum \<Rightarrow> jsnum" where
  "round2 v = js_div (Math_round (js_mul v (Fin 100))) (Fin 100)"

definition reduceGroups :: "AggregationType \<Rightarrow> string \<Rightarrow> string \<Rightarrow> groups \<Rightarrow> ChartDataPoint list" where
  "reduceGroups agg xCol yCol gs =
     map (\<lambda>(key, stats). mkPoint xCol (Str key) yCol (round2 (groupValue agg stats))) gs"

text \<open>The raw branch: slice, map, filter.\<close>

definition rawPoints :: "string \<Rightarrow> nat \<Rightarrow> string \<Rightarrow> nat \<Rightarrow> nat \<Rightarrow> string list list \<Rightarrow> ChartDataPoint list" where
  "rawPoints xCol xIdx yCol yi limit rws =
     filter (\<lambda>item. \<not> isNaN (pointNum yCol item))
       (map (\<lambda>row. mkPoint xCol (Str (cell_or row xIdx [])) yCol (parseFloat (cell_or row yi ''0'')))
            (take (min (limit * 2) (length rws)) rws))"

text \<open>
  \<open>Array.prototype.sort\<close> is stable. With a consistent comparator its result is
  determined: the one arrangement of the elements that the comparator orders and in which
  equal elements keep their places (lemma \<open>stable_sorted_unique\<close> below), whatever
  algorithm the engine runs. \<open>sortBy\<close> computes this arrangement by insertion: an
  element moves behind another only where the comparator returns a positive number.
  \<open>sortBy\<close> stands for the engine's sort in that case only; see \<open>applySort\<close>.
\<close>

definition js_positive :: "jsnum \<Rightarrow> bool" where
  "js_positive v = (case v of PosInf \<Rightarrow> True | Fin q \<Rightarrow> 0 < q | _ \<Rightarrow> False)"

fun insertBy :: "('a \<Rightarrow> 'a \<Rightarrow> jsnum) \<Rightarrow> 'a \<Rightarrow> 'a list \<Rightarrow> 'a list" where
  "insertBy cmp x [] = [x]"
| "insertBy cmp x (y # ys) =
     (if js_positive (cmp x y) then y # insertBy cmp x ys else x # y # ys)"

definition sortBy :: "('a \<Rightarrow> 'a \<Rightarrow> jsnum) \<Rightarrow> 'a list \<Rightarrow> 'a list" where
  "sortBy cmp xs = foldr (insertBy cmp) xs []"

definition compareY :: "SortOrder \<Rightarrow> string \<Rightarrow> ChartDataPoint \<Rightarrow> ChartDataPoint \<Rightarrow> jsnum" where
  "compareY sortOrder yCol a b =
     (let aVal = pointNum yCol a; bVal = pointNum yCol b
      in if sortOrder = SortDesc then js_sub bVal aVal else js_sub aVal bVal)"

text \<open>
  The comparator of \<open>processChartData\<close> is consistent on a result none of whose y values
  is NaN. With a NaN among them (a sum of \<open>Infinity\<close> and \<open>-Infinity\<close>) it need not be,
  and ECMAScript then leaves the order to the implementation. The model does not choose
  one: what the engine returns there is the parameter \<open>engine\<close>, of which nothing is
  assumed.
\<close>

type_synonym sort_engine =
  "(ChartDataPoint \<Rightarrow> ChartDataPoint \<Rightarrow> jsnum) \<Rightarrow> ChartDataPoint list \<Rightarrow> ChartDataPoint list"

definition applySort :: "sort_engine \<Rightarrow> SortOrder \<Rightarrow> string \<Rightarrow> ChartDataPoint list \<Rightarrow> ChartDataPoint list" where
  "applySort engine sortOrder yCol result =
     (if sortOrder \<noteq> SortNone then
        (if list_all (\<lambda>p. \<not> isNaN (pointNum yCol p)) result
         then sortBy (compareY sortOrder yCol) result
         else engine (compareY sortOrder yCol) result)
      else result)"

text \<open>
  The limit is a natural number: the only caller passes the value of a selector whose
  options are 10, 20, 50, 100 and 999999.

  \<open>yColName\<close> is \<open>yCol\<close>, and \<open>unsortedResult\<close> is the value of \<open>result\<close> when the
  comment \<open>Apply sorting\<close> is reached.
\<close>

definition yColName :: "CSVData \<Rightarrow> ChartSuggestion \<Rightarrow> string" where
  "yColName data chart =
     (case findColumn (yAxis chart) (columns data) of Some yc \<Rightarrow> name yc | None \<Rightarrow> ''count'')"

definition unsortedResult :: "CSVData \<Rightarrow> ChartSuggestion \<Rightarrow> nat \<Rightarrow> ChartDataPoint list" where
  "unsortedResult data chart limit =
     (case findColumn (xAxis chart) (columns data) of
        None \<Rightarrow> []
      | Some xColDef \<Rightarrow>
          let yColDef = findColumn (yAxis chart) (columns data);
              xCol = name xColDef;
              xIdx = index xColDef;
              isCountMode = (aggregation chart = AggCount);
              yCol = yColName data chart;
              yIdx = map_option index yColDef
          in if aggregation chart \<noteq> AggNone then
               reduceGroups (aggregation chart) xCol yCol
                 (buildGroups isCountMode xIdx yIdx (rows data))
             else
               (case yIdx of
                  Some yi \<Rightarrow> rawPoints xCol xIdx yCol yi limit (rows data)
                | None \<Rightarrow> []))"

definition processChartData :: "sort_engine \<Rightarrow> CSVData \<Rightarrow> ChartSuggestion \<Rightarrow> SortOrder \<Rightarrow> nat \<Rightarrow> ChartDataPoint list" where
  "processChartData engine data chart sortOrder limit =
     (case findColumn (xAxis chart) (columns data) of
        None \<Rightarrow> []
      | Some xColDef \<Rightarrow>
          take limit
            (applySort engine sortOrder (yColName data chart) (unsortedResult data chart limit)))"

section \<open>Notions used to state the properties\<close>

text \<open>The comparison \<open>a <= b\<close> of two numbers; it is false when one of them is NaN.\<close>

fun js_le :: "jsnum \<Rightarrow> jsnum \<Rightarrow> bool" where
  "js_le (Fin a) (Fin b) = (a \<le> b)"
| "js_le NaN _ = False"
| "js_le _ NaN = False"
| "js_le NegInf _ = True"
| "js_le _ PosInf = True"
| "js_le _ _ = False"

text \<open>
  A row counts in a group of the aggregation when its trimmed x cell is not empty and
  \<open>parseFloat\<close> of its y cell is not NaN. \<open>groupKeys\<close> lists the x values of these rows,
  each once, in the order of first appearance; \<open>groupYs\<close> lists the y values of the
  rows of one group, in row order.
\<close>

definition rowKey :: "nat \<Rightarrow> string list \<Rightarrow> string" where
  "rowKey xIdx row = trim_js (cell_or row xIdx [])"

definition rowY :: "nat \<Rightarrow> string list \<Rightarrow> jsnum" where
  "rowY yi row = parseFloat (cell_or row yi ''0'')"

definition countedRows :: "nat \<Rightarrow> nat \<Rightarrow> string list list \<Rightarrow> string list list" where
  "countedRows xIdx yi rws = filter (\<lambda>row. rowKey xIdx row \<noteq> [] \<and> \<not> isNaN (rowY yi row)) rws"

definition groupKeys :: "nat \<Rightarrow> nat \<Rightarrow> string list list \<Rightarrow> string list" where
  "groupKeys xIdx yi rws = rev (remdups (rev (map (rowKey xIdx) (countedRows xIdx yi rws))))"

definition groupYs :: "nat \<Rightarrow> nat \<Rightarrow> string \<Rightarrow> string list list \<Rightarrow> jsnum list" where
  "groupYs xIdx yi k rws =
     map (rowY yi) (filter (\<lambda>row. rowKey xIdx row = k) (countedRows xIdx yi rws))"

definition statsOf :: "jsnum list \<Rightarrow> GroupStats" where
  "statsOf ys =
     \<lparr>g_sum = foldl js_add (Fin 0) ys, g_count = length ys,
      g_min = foldl js_min PosInf ys, g_max = foldl js_max NegInf ys\<rparr>"

section \<open>Inputs of the examples\<close>

text \<open>A dataset with the columns \<open>x\<close> and \<open>y\<close>, a chart over them, and the default settings.\<close>

abbreviation xyData :: "string list list \<Rightarrow> CSVData" where
  "xyData rws \<equiv>
     \<lparr>headers = [''x'', ''y''], rows = rws,
      columns = [\<lparr>name = ''x'', type = TString, index = 0\<rparr>,
                 \<lparr>name = ''y'', type = TNumber, index = 1\<rparr>],
      rowCount = length rws\<rparr>"

abbreviation xyChart :: "AggregationType \<Rightarrow> ChartSuggestion" where
  "xyChart agg \<equiv> \<lparr>xAxis = ''X'', yAxis = ''Y'', aggregation = agg\<rparr>"

abbreviation defaultSettings :: CSVSettings where
  "defaultSettings \<equiv>
     \<lparr>delimiter = [], hasHeader = True, encoding = ''UTF-8'', skipEmptyLines = True\<rparr>"

section \<open>Evaluation lemmas\<close>

lemma dbl_limit_big: "2 ^ 64 \<le> dbl_limit"
proof -
  have a: "(2::rat) ^ 970 \<le> 2 ^ 1023" by (rule power_increasing) simp_all
  have b: "(2::rat) ^ 1024 = 2 * 2 ^ 1023" by simp
  have c: "(2::rat) ^ 64 \<le> 2 ^ 1023" by (rule power_increasing) simp_all
  show ?thesis unfolding dbl_limit_def using a b c by linarith
qed

lemma to_double_small: "\<bar>q\<bar> < 2 ^ 64 \<Longrightarrow> to_double q = Fin q"
  using dbl_limit_big by (auto simp: to_double_def)

lemma floor_half: "\<lfloor>(1::rat) / 2\<rfloor> = 0"
  by (rule floor_unique) simp_all

lemma floor_numeral_div: "\<lfloor>(numeral a :: rat) / numeral b\<rfloor> = numeral a div numeral b"
  by (metis floor_divide_of_int_eq of_int_numeral)

lemmas round_eval = floor_half floor_numeral_div

lemma parseFloat_zero: "parseFloat ''0'' = Fin 0"
  by (simp add: scanDecimal_def scanUnsigned_def scanExponent_def parseFloat_def
      isWhiteSpace_def isDigit_def radixVal_def digitVal_def hexVal_def pow10_def to_double_small)

lemmas scan_defs = parseFloat_def scanDecimal_def scanUnsigned_def scanExponent_def
  isWhiteSpace_def isDigit_def radixVal_def digitVal_def hexVal_def pow10_def

lemmas chart_defs = processChartData_def unsortedResult_def yColName_def findColumn_def
  toLowerCase_def lowerChar_def buildGroups_def groupRow_def reduceGroups_def rawPoints_def mkPoint_def pointNum_def
  applySort_def cell_or_def trim_js_def isNaN_def groupValue_def round2_def

lemma parseFloat_1: "parseFloat ''1'' = Fin 1"
  by (simp add: scan_defs to_double_small)

lemma parseFloat_3: "parseFloat ''3'' = Fin 3"
  by (simp add: scan_defs to_double_small)


lemma parseFloat_5: "parseFloat ''5'' = Fin 5"
  by (simp add: scan_defs to_double_small)

lemma parseFloat_x: "parseFloat ''x'' = NaN"
  by (simp add: scan_defs)

lemma parseFloat_Infinity: "parseFloat ''Infinity'' = PosInf"
  by (simp add: scan_defs)

lemma parseFloat_NegInfinity: "parseFloat ''-Infinity'' = NegInf"
  by (simp add: scan_defs)

section \<open>The dataset builder\<close>

lemma length_mkHeaders: "length (mkHeaders w r) = length r"
  by (simp add: mkHeaders_def)

lemma map_name_mkColumns: "map name (mkColumns hs rs) = hs"
  by (simp add: mkColumns_def split_def comp_def)

lemma map_index_mkColumns: "map index (mkColumns hs rs) = [0 ..< length hs]"
  by (simp add: mkColumns_def split_def comp_def)

lemma map_over_zip_snd:
  "length xs = length ys \<Longrightarrow> map (\<lambda>p. f (snd p)) (zip xs ys) = map f ys"
  by (induction xs ys rule: list_induct2) simp_all

lemma map_type_mkColumns:
  "map type (mkColumns hs rs) =
     map (\<lambda>i. inferColumnType (map (\<lambda>row. cell_or row i []) rs)) [0 ..< length hs]"
  using map_over_zip_snd [of hs "[0 ..< length hs]"
      "\<lambda>i. inferColumnType (map (\<lambda>row. cell_or row i []) rs)"]
  by (simp add: mkColumns_def split_def comp_def)

lemma length_mkColumns: "length (mkColumns hs rs) = length hs"
  by (simp add: mkColumns_def)

text \<open>
  Claim C8. When the row parser yields zero rows for a text, \<open>parseCSV\<close> returns the
  empty dataset: no headers, no rows, no columns, \<open>rowCount = 0\<close>. The model is a total
  function, so nothing is raised. For the empty text this is the case as soon as the row
  parser gives no row for it.
\<close>

theorem parseCSV_zero_rows:
  "papa content (usedDelimiter content settings) (skipEmptyLines settings) = [] \<Longrightarrow>
   parseCSV papa content settings = \<lparr>headers = [], rows = [], columns = [], rowCount = 0\<rparr>"
  by (simp add: parseCSV_def datasetOfRows_def)

theorem parseCSV_zero_rows_witness:
  "(\<lambda>content d skip. if content = [] then [] else [[content]]) []
      (usedDelimiter [] defaultSettings) (skipEmptyLines defaultSettings) = []
   \<and> parseCSV (\<lambda>content d skip. if content = [] then [] else [[content]]) [] defaultSettings
       = \<lparr>headers = [], rows = [], columns = [], rowCount = 0\<rparr>"
  using parseCSV_zero_rows [of "\<lambda>content d skip. if content = [] then [] else [[content]]" "[]"
      defaultSettings]
  by simp

text \<open>
  Claim C7, as stated: the number of parsed rows is \<open>rowCount\<close> plus one when
  \<open>hasHeader\<close> is set. With a header expected and no row parsed, both numbers are 0.
\<close>

theorem row_count_counterexample:
  "length ([] :: string list list) \<noteq> rowCount (datasetOfRows True []) + 1"
  by (simp add: datasetOfRows_def)

text \<open>
  Claim C7, amended: the number of rows the row parser produces is \<open>rowCount\<close> of the
  dataset, plus one when \<open>hasHeader\<close> is set and at least one row was parsed.
\<close>

theorem parseCSV_row_count:
  "length (papa content (usedDelimiter content settings) (skipEmptyLines settings)) =
     rowCount (parseCSV papa content settings) +
     (if hasHeader settings \<and>
         papa content (usedDelimiter content settings) (skipEmptyLines settings) \<noteq> []
      then 1 else 0)"
  by (cases "papa content (usedDelimiter content settings) (skipEmptyLines settings)")
     (simp_all add: parseCSV_def datasetOfRows_def Let_def)

theorem parseCSV_row_count_witness:
  "length [[''a'', ''b''], [''1'', ''2''], [''3'', ''4'']] =
     rowCount (parseCSV (\<lambda>content d skip. [[''a'', ''b''], [''1'', ''2''], [''3'', ''4'']])
                 ''a,b\<newline>1,2\<newline>3,4'' defaultSettings) + 1"
  using parseCSV_row_count [of "\<lambda>content d skip. [[''a'', ''b''], [''1'', ''2''], [''3'', ''4'']]"
      "''a,b\<newline>1,2\<newline>3,4''" defaultSettings]
  by simp

text \<open>
  Claim C9, as stated: every row of the dataset has exactly as many cells as there are
  headers. The rows are the parsed rows, unchanged: a data row with more fields than the
  header row keeps them all.
\<close>

theorem ragged_rows_counterexample:
  "length (rows (datasetOfRows True [[''a''], [''1'', ''2'']]) ! 0) \<noteq>
   length (headers (datasetOfRows True [[''a''], [''1'', ''2'']]))"
  by (simp add: datasetOfRows_def mkHeaders_def trim_js_def isWhiteSpace_def Let_def)

text \<open>
  Claim C9, amended: in every dataset returned by \<open>parseCSV\<close> the columns are aligned
  with the headers (same length, \<open>columns[i].name\<close> is \<open>headers[i]\<close> and
  \<open>columns[i].index\<close> is \<open>i\<close>), \<open>rowCount\<close> is the number of rows, and the rows
  are the parsed rows as they are (all of them, or all but the first with a header),
  neither padded nor cut to the header width; the type of column \<open>i\<close> is inferred from
  the cells \<open>row[i] ?? ""\<close>, where an absent cell reads as the empty string.
\<close>

theorem parseCSV_invariant:
  "length (columns (parseCSV papa content settings)) = length (headers (parseCSV papa content settings))
   \<and> map name (columns (parseCSV papa content settings)) = headers (parseCSV papa content settings)
   \<and> map index (columns (parseCSV papa content settings)) =
       [0 ..< length (headers (parseCSV papa content settings))]
   \<and> rowCount (parseCSV papa content settings) = length (rows (parseCSV papa content settings))
   \<and> rows (parseCSV papa content settings) =
       (if hasHeader settings
        then drop 1 (papa content (usedDelimiter content settings) (skipEmptyLines settings))
        else papa content (usedDelimiter content settings) (skipEmptyLines settings))
   \<and> map type (columns (parseCSV papa content settings)) =
       map (\<lambda>i. inferColumnType (map (\<lambda>row. cell_or row i []) (rows (parseCSV papa content settings))))
         [0 ..< length (headers (parseCSV papa content settings))]"
  by (simp add: parseCSV_def datasetOfRows_def Let_def length_mkColumns map_name_mkColumns
      map_index_mkColumns map_type_mkColumns)

section \<open>Schema inference\<close>

lemma sampleOf_eq: "sampleOf values = filter (\<lambda>v. trim_js v \<noteq> []) (take 100 values)"
proof -
  have "take (min (length values) 100) values = take 100 values"
    by (simp add: min_def)
  then show ?thesis
    by (simp add: sampleOf_def)
qed

lemma inferColumnType_cases:
  "inferColumnType values =
     (if sampleOf values = [] then TString
      else if (\<forall>v \<in> set (sampleOf values). isBooleanCell v) then TBoolean
      else if (\<forall>v \<in> set (sampleOf values). isNumberCell v) then TNumber
      else if (\<forall>v \<in> set (sampleOf values). isDateCell v) then TDate
      else TString)"
  by (simp add: inferColumnType_def list_all_iff Let_def)

lemma filter_replicate_empty:
  "filter (\<lambda>v. trim_js v \<noteq> []) (replicate n []) = []"
  by (induction n) (simp_all add: trim_js_def)

text \<open>
  Claim C5, as stated: the sample is up to the first 100 non-empty values. In the column
  made of \<open>1\<close>, 99 empty cells and \<open>abc\<close>, the first 100 non-empty values are \<open>1\<close> and
  \<open>abc\<close>, and \<open>abc\<close> is no boolean; the code looks at the first 100 cells only, finds
  \<open>1\<close> alone and answers boolean.
\<close>

theorem sample_counterexample:
  "take 100 (filter (\<lambda>v. trim_js v \<noteq> []) (''1'' # replicate 99 [] @ [''abc''])) = [''1'', ''abc'']
   \<and> \<not> isBooleanCell ''abc''
   \<and> inferColumnType (''1'' # replicate 99 [] @ [''abc'']) = TBoolean"
proof -
  have t1: "trim_js ''1'' = ''1''" by (simp add: trim_js_def isWhiteSpace_def)
  have t2: "trim_js ''abc'' = ''abc''" by (simp add: trim_js_def isWhiteSpace_def)
  have a: "take 100 (filter (\<lambda>v. trim_js v \<noteq> []) (''1'' # replicate 99 [] @ [''abc'']))
      = [''1'', ''abc'']"
    by (simp add: t1 t2 filter_replicate_empty)
  have b: "\<not> isBooleanCell ''abc''"
    by (simp add: isBooleanCell_def booleanValues_def toLowerCase_def lowerChar_def t2)
  have b1: "isBooleanCell ''1''"
    by (simp add: isBooleanCell_def booleanValues_def toLowerCase_def lowerChar_def t1)
  have "take 100 (''1'' # replicate 99 ([]::string) @ [''abc'']) = ''1'' # replicate 99 []"
    by simp
  then have "sampleOf (''1'' # replicate 99 [] @ [''abc'']) = [''1'']"
    by (simp add: sampleOf_eq t1 filter_replicate_empty)
  then have c: "inferColumnType (''1'' # replicate 99 [] @ [''abc'']) = TBoolean"
    using b1 by (simp add: inferColumnType_cases)
  from a b c show ?thesis by blast
qed

text \<open>
  Claim C5, amended: \<open>inferColumnType\<close> is total; its sample is the non-empty values
  among the first 100 values of the column (later values are never read); it returns
  string when this sample is empty, and otherwise the first type that matches in the order
  boolean, number, date, string, a type matching when every sampled value does. The
  column \<open>["0","1","0"]\<close>, which is all boolean and all number, infers boolean.
\<close>

theorem inferColumnType_precedence:
  "sampleOf values = filter (\<lambda>v. trim_js v \<noteq> []) (take 100 values)
   \<and> (sampleOf values = [] \<longrightarrow> inferColumnType values = TString)
   \<and> (sampleOf values \<noteq> [] \<and> (\<forall>v \<in> set (sampleOf values). isBooleanCell v)
        \<longrightarrow> inferColumnType values = TBoolean)
   \<and> (sampleOf values \<noteq> [] \<and> \<not> (\<forall>v \<in> set (sampleOf values). isBooleanCell v)
        \<and> (\<forall>v \<in> set (sampleOf values). isNumberCell v)
        \<longrightarrow> inferColumnType values = TNumber)
   \<and> (sampleOf values \<noteq> [] \<and> \<not> (\<forall>v \<in> set (sampleOf values). isBooleanCell v)
        \<and> \<not> (\<forall>v \<in> set (sampleOf values). isNumberCell v)
        \<and> (\<forall>v \<in> set (sampleOf values). isDateCell v)
        \<longrightarrow> inferColumnType values = TDate)
   \<and> (\<not> (\<forall>v \<in> set (sampleOf values). isBooleanCell v)
        \<and> \<not> (\<forall>v \<in> set (sampleOf values). isNumberCell v)
        \<and> \<not> (\<forall>v \<in> set (sampleOf values). isDateCell v)
        \<longrightarrow> inferColumnType values = TString)"
proof -
  define B where "B \<longleftrightarrow> (\<forall>v \<in> set (sampleOf values). isBooleanCell v)"
  define N where "N \<longleftrightarrow> (\<forall>v \<in> set (sampleOf values). isNumberCell v)"
  define T where "T \<longleftrightarrow> (\<forall>v \<in> set (sampleOf values). isDateCell v)"
  have c: "inferColumnType values =
     (if sampleOf values = [] then TString else if B then TBoolean
      else if N then TNumber else if T then TDate else TString)"
    unfolding B_def N_def T_def by (rule inferColumnType_cases)
  have "(sampleOf values = [] \<longrightarrow> inferColumnType values = TString)
   \<and> (sampleOf values \<noteq> [] \<and> B \<longrightarrow> inferColumnType values = TBoolean)
   \<and> (sampleOf values \<noteq> [] \<and> \<not> B \<and> N \<longrightarrow> inferColumnType values = TNumber)
   \<and> (sampleOf values \<noteq> [] \<and> \<not> B \<and> \<not> N \<and> T \<longrightarrow> inferColumnType values = TDate)
   \<and> (\<not> B \<and> \<not> N \<and> \<not> T \<longrightarrow> inferColumnType values = TString)"
    unfolding c by simp
  then show ?thesis
    unfolding B_def N_def T_def using sampleOf_eq [of "values"] by blast
qed

theorem inferColumnType_precedence_witness:
  "sampleOf [''0'', ''1'', ''0''] = [''0'', ''1'', ''0'']
   \<and> list_all isBooleanCell (sampleOf [''0'', ''1'', ''0''])
   \<and> list_all isNumberCell (sampleOf [''0'', ''1'', ''0''])
   \<and> inferColumnType [''0'', ''1'', ''0''] = TBoolean"
proof -
  have s: "sampleOf [''0'', ''1'', ''0''] = [''0'', ''1'', ''0'']"
    by (simp add: sampleOf_def trim_js_def isWhiteSpace_def)
  have b0: "isBooleanCell ''0''"
    by (simp add: isBooleanCell_def booleanValues_def toLowerCase_def lowerChar_def
        trim_js_def isWhiteSpace_def)
  have b1: "isBooleanCell ''1''"
    by (simp add: isBooleanCell_def booleanValues_def toLowerCase_def lowerChar_def
        trim_js_def isWhiteSpace_def)
  have n0: "isNumberCell ''0''"
    by (simp add: isNumberCell_def cleanNumber_def scan_defs to_double_small
        Number_js_def scanNonDecimal_def trim_js_def isNaN_def isFinite_def Let_def)
  have n1: "isNumberCell ''1''"
    by (simp add: isNumberCell_def cleanNumber_def scan_defs to_double_small
        Number_js_def scanNonDecimal_def trim_js_def isNaN_def isFinite_def Let_def)
  have b: "\<forall>v \<in> set (sampleOf [''0'', ''1'', ''0'']). isBooleanCell v"
    unfolding s using b0 b1 by simp
  have n: "\<forall>v \<in> set (sampleOf [''0'', ''1'', ''0'']). isNumberCell v"
    unfolding s using n0 n1 by simp
  have e: "sampleOf [''0'', ''1'', ''0''] \<noteq> []"
    unfolding s by simp
  from inferColumnType_precedence [of "[''0'', ''1'', ''0'']"] e b
  have "inferColumnType [''0'', ''1'', ''0''] = TBoolean" by blast
  with s b n show ?thesis by (simp add: list_all_iff)
qed

section \<open>The aggregation pipeline\<close>

text \<open>
  Claim C3. When no column's name equals the chart's \<open>xAxis\<close> after \<open>toLowerCase\<close> on
  both, \<open>processChartData\<close> returns the empty list, for every aggregation kind, sort
  order and limit.
\<close>

theorem no_x_column_empty:
  "findColumn (xAxis chart) (columns data) = None \<Longrightarrow>
   processChartData engine data chart sortOrder limit = []"
  by (simp add: processChartData_def)

theorem no_x_column_empty_witness:
  "findColumn (xAxis \<lparr>xAxis = ''Region'', yAxis = ''Y'', aggregation = AggCount\<rparr>)
     (columns (xyData [[''A'', ''10'']])) = None
   \<and> processChartData sortBy (xyData [[''A'', ''10'']])
        \<lparr>xAxis = ''Region'', yAxis = ''Y'', aggregation = AggCount\<rparr> SortAsc 20 = []"
proof -
  have h: "findColumn (xAxis \<lparr>xAxis = ''Region'', yAxis = ''Y'', aggregation = AggCount\<rparr>)
     (columns (xyData [[''A'', ''10'']])) = None"
    by (simp add: findColumn_def toLowerCase_def lowerChar_def)
  from h no_x_column_empty [OF h] show ?thesis by simp
qed

subsection \<open>Reading the y cell\<close>

lemma pointNum_mkPoint: "pointNum yCol (mkPoint xCol xv yCol yv) = yv"
  by (simp add: pointNum_def mkPoint_def)

lemma take_min_length: "take (min n (length xs)) xs = take n xs"
  by (simp add: min_def)

lemma filter_map_points:
  "filter (\<lambda>item. \<not> isNaN (pointNum yCol item))
     (map (\<lambda>row. mkPoint xCol (f row) yCol (g row)) rws) =
   map (\<lambda>row. mkPoint xCol (f row) yCol (g row)) (filter (\<lambda>row. \<not> isNaN (g row)) rws)"
  by (induction rws) (simp_all add: pointNum_mkPoint)

text \<open>A row whose y cell \<open>parseFloat\<close> reads as NaN leaves every group as it was.\<close>

lemma nan_cell_skipped:
  "isNaN (parseFloat (cell_or row yi ''0'')) \<Longrightarrow> groupRow False xIdx (Some yi) gs row = gs"
  by (simp add: groupRow_def Let_def)

text \<open>
  Claim C1. The claim says that the aggregation reads the y cell with the normalization
  of type inference. \<open>processChartData\<close> calls \<open>parseFloat\<close> on the cell as it is: on
  the cell \<open>1,234\<close> the group's sum is 1, while the normalization of \<open>inferColumnType\<close>
  (which types the column as a number) reads 1234.
\<close>

theorem sum_without_normalization:
  "processChartData sortBy (xyData [[''A'', ''1,234'']]) (xyChart AggSum) SortNone 20
     = [[(''x'', Str ''A''), (''y'', Num (Fin 1))]]
   \<and> parseFloat (cleanNumber ''1,234'') = Fin 1234
   \<and> inferColumnType [''1,234''] = TNumber"
  by (simp add: chart_defs scan_defs to_double_small Let_def cleanNumber_def inferColumnType_def
      sampleOf_def isBooleanCell_def booleanValues_def isNumberCell_def Number_js_def
      scanNonDecimal_def isFinite_def round_eval)

text \<open>
  Claim C4, as stated: raw mode drops exactly the rows whose y cell cannot be parsed as a
  finite number. The filter is \<open>!isNaN\<close>: the cell \<open>Infinity\<close> parses to an infinity,
  which is no finite number, and its row is kept.
\<close>

theorem raw_mode_infinity_counterexample:
  "processChartData sortBy (xyData [[''A'', ''Infinity'']]) (xyChart AggNone) SortNone 20
     = [[(''x'', Str ''A''), (''y'', Num PosInf)]]
   \<and> \<not> isFinite (parseFloat ''Infinity'')"
  by (simp add: chart_defs scan_defs isFinite_def Let_def)

lemma raw_mode_core:
  assumes "findColumn (xAxis chart) (columns data) = Some xc"
    and "findColumn (yAxis chart) (columns data) = Some yc"
    and "aggregation chart = AggNone"
  shows "processChartData engine data chart sortOrder limit =
     take limit (applySort engine sortOrder (name yc)
       (map (\<lambda>row. mkPoint (name xc) (Str (cell_or row (index xc) [])) (name yc)
                     (parseFloat (cell_or row (index yc) ''0'')))
          (filter (\<lambda>row. \<not> isNaN (parseFloat (cell_or row (index yc) ''0'')))
             (take (2 * limit) (rows data)))))"
  using assms
  by (simp add: processChartData_def unsortedResult_def yColName_def rawPoints_def Let_def
      take_min_length filter_map_points mult.commute)

text \<open>
  Claim C4, amended: with aggregation \<open>none\<close> and both columns resolved, the pipeline
  takes the first \<open>2 * limit\<close> rows of the dataset in their order, drops exactly those
  whose y cell \<open>parseFloat\<close> reads as NaN (an absent cell reads as \<open>"0"\<close>, and a cell
  reading as an infinity keeps its row), maps each remaining row to the point of its raw x
  cell and its parsed y, and then sorts and truncates to \<open>limit\<close>. The rows
  \<open>[("A","10"),("B","x")]\<close> yield the point of \<open>A\<close> only.
\<close>

theorem raw_mode_points:
  assumes "findColumn (xAxis chart) (columns data) = Some xc"
    and "findColumn (yAxis chart) (columns data) = Some yc"
    and "aggregation chart = AggNone"
  shows "processChartData engine data chart sortOrder limit =
     take limit (applySort engine sortOrder (name yc)
       (map (\<lambda>row. mkPoint (name xc) (Str (cell_or row (index xc) [])) (name yc)
                     (parseFloat (cell_or row (index yc) ''0'')))
          (filter (\<lambda>row. \<not> isNaN (parseFloat (cell_or row (index yc) ''0'')))
             (take (2 * limit) (rows data)))))"
  using assms by (rule raw_mode_core)

theorem raw_mode_points_witness:
  "findColumn (xAxis (xyChart AggNone)) (columns (xyData [[''A'', ''10''], [''B'', ''x'']]))
     = Some \<lparr>name = ''x'', type = TString, index = 0\<rparr>
   \<and> findColumn (yAxis (xyChart AggNone)) (columns (xyData [[''A'', ''10''], [''B'', ''x'']]))
     = Some \<lparr>name = ''y'', type = TNumber, index = 1\<rparr>
   \<and> aggregation (xyChart AggNone) = AggNone
   \<and> processChartData sortBy (xyData [[''A'', ''10''], [''B'', ''x'']]) (xyChart AggNone) SortNone 20
     = [[(''x'', Str ''A''), (''y'', Num (Fin 10))]]"
proof -
  have x: "findColumn (xAxis (xyChart AggNone)) (columns (xyData [[''A'', ''10''], [''B'', ''x'']]))
     = Some \<lparr>name = ''x'', type = TString, index = 0\<rparr>"
    by (simp add: findColumn_def toLowerCase_def lowerChar_def)
  have y: "findColumn (yAxis (xyChart AggNone)) (columns (xyData [[''A'', ''10''], [''B'', ''x'']]))
     = Some \<lparr>name = ''y'', type = TNumber, index = 1\<rparr>"
    by (simp add: findColumn_def toLowerCase_def lowerChar_def)
  have a: "aggregation (xyChart AggNone) = AggNone" by simp
  have p10: "parseFloat ''10'' = Fin 10" by (simp add: scan_defs to_double_small)
  have px: "parseFloat ''x'' = NaN" by (simp add: scan_defs)
  from raw_mode_points [OF x y a, where sortOrder = SortNone and limit = 20 and engine = sortBy]
  have "processChartData sortBy (xyData [[''A'', ''10''], [''B'', ''x'']]) (xyChart AggNone) SortNone 20
     = [[(''x'', Str ''A''), (''y'', Num (Fin 10))]]"
    by (simp add: applySort_def cell_or_def p10 px isNaN_def mkPoint_def)
  with x y a show ?thesis by blast
qed

subsection \<open>Sorting and limiting\<close>

lemma dbl_limit_pos: "0 < dbl_limit"
  using dbl_limit_big by (smt (verit) zero_less_power zero_less_numeral less_le_trans)

lemma js_positive_to_double: "js_positive (to_double q) \<longleftrightarrow> 0 < q"
  using dbl_limit_pos by (auto simp: to_double_def js_positive_def)

lemma js_positive_consts:
  "\<not> js_positive NaN" "js_positive PosInf" "\<not> js_positive NegInf"
  by (simp_all add: js_positive_def)

lemma js_positive_sub:
  "a \<noteq> NaN \<Longrightarrow> b \<noteq> NaN \<Longrightarrow> js_positive (js_sub a b) \<longleftrightarrow> \<not> js_le a b"
  by (cases a; cases b) (auto simp: js_sub_def js_positive_to_double js_positive_consts)

lemma js_sub_same_not_positive: "\<not> js_positive (js_sub a a)"
  by (cases a) (auto simp: js_sub_def js_positive_to_double js_positive_consts)

lemma js_le_total: "a \<noteq> NaN \<Longrightarrow> b \<noteq> NaN \<Longrightarrow> js_le a b \<or> js_le b a"
  by (cases a; cases b) auto

lemma js_le_trans: "js_le a b \<Longrightarrow> js_le b c \<Longrightarrow> js_le a c"
  by (cases a; cases b; cases c) auto

lemma mset_insertBy: "mset (insertBy cmp x xs) = add_mset x (mset xs)"
  by (induction xs) simp_all

lemma mset_sortBy: "mset (sortBy cmp xs) = mset xs"
  by (induction xs) (simp_all add: sortBy_def mset_insertBy)

lemma set_insertBy: "set (insertBy cmp x xs) = insert x (set xs)"
  by (induction xs) auto

lemma set_sortBy: "set (sortBy cmp xs) = set xs"
  by (induction xs) (simp_all add: sortBy_def set_insertBy)

lemma filter_insertBy_out: "\<not> P x \<Longrightarrow> filter P (insertBy cmp x xs) = filter P xs"
  by (induction xs) simp_all

lemma filter_insertBy_in:
  "P x \<Longrightarrow> (\<And>y. y \<in> set xs \<Longrightarrow> P y \<Longrightarrow> \<not> js_positive (cmp x y)) \<Longrightarrow>
   filter P (insertBy cmp x xs) = x # filter P xs"
  by (induction xs) auto

lemma filter_sortBy_stable:
  assumes "\<And>x y. P x \<Longrightarrow> P y \<Longrightarrow> \<not> js_positive (cmp x y)"
  shows "filter P (sortBy cmp xs) = filter P xs"
proof (induction xs)
  case Nil
  then show ?case by (simp add: sortBy_def)
next
  case (Cons x xs)
  have s: "sortBy cmp (x # xs) = insertBy cmp x (sortBy cmp xs)"
    by (simp add: sortBy_def)
  show ?case
  proof (cases "P x")
    case True
    then have "filter P (insertBy cmp x (sortBy cmp xs)) = x # filter P (sortBy cmp xs)"
      using assms by (intro filter_insertBy_in) auto
    with True Cons s show ?thesis by simp
  next
    case False
    with Cons s show ?thesis by (simp add: filter_insertBy_out)
  qed
qed

lemma sorted_insertBy:
  assumes tot: "\<And>a b. a \<in> insert x (set xs) \<Longrightarrow> b \<in> insert x (set xs) \<Longrightarrow> \<not> js_positive (cmp a b) \<longleftrightarrow> le a b"
    and lin: "\<And>a b. a \<in> insert x (set xs) \<Longrightarrow> b \<in> insert x (set xs) \<Longrightarrow> le a b \<or> le b a"
    and trans: "\<And>a b c. le a b \<Longrightarrow> le b c \<Longrightarrow> le a c"
    and "sorted_wrt le xs"
  shows "sorted_wrt le (insertBy cmp x xs)"
  using assms
proof (induction xs)
  case Nil
  then show ?case by simp
next
  case (Cons y ys)
  show ?case
  proof (cases "js_positive (cmp x y)")
    case True
    have yx: "le y x"
      using Cons.prems(1) [of x y] Cons.prems(2) [of x y] True by auto
    have ih: "sorted_wrt le (insertBy cmp x ys)"
      using Cons.prems by (intro Cons.IH) auto
    have "\<forall>z \<in> set (insertBy cmp x ys). le y z"
      using Cons.prems(4) yx by (auto simp: set_insertBy)
    with ih True show ?thesis by simp
  next
    case False
    then have xy: "le x y" using Cons.prems(1) [of x y] by auto
    have "\<forall>z \<in> set ys. le x z"
      using Cons.prems(4) xy Cons.prems(3) by auto
    with False xy Cons.prems(4) show ?thesis by simp
  qed
qed

lemma sorted_sortBy:
  assumes tot: "\<And>a b. a \<in> set xs \<Longrightarrow> b \<in> set xs \<Longrightarrow> \<not> js_positive (cmp a b) \<longleftrightarrow> le a b"
    and lin: "\<And>a b. a \<in> set xs \<Longrightarrow> b \<in> set xs \<Longrightarrow> le a b \<or> le b a"
    and trans: "\<And>a b c. le a b \<Longrightarrow> le b c \<Longrightarrow> le a c"
  shows "sorted_wrt le (sortBy cmp xs)"
  using tot lin
proof (induction xs)
  case Nil
  then show ?case by (simp add: sortBy_def)
next
  case (Cons x xs)
  have ih: "sorted_wrt le (sortBy cmp xs)"
    using Cons.prems by (intro Cons.IH) auto
  have "sorted_wrt le (insertBy cmp x (sortBy cmp xs))"
    using Cons.prems ih trans
    by (intro sorted_insertBy) (auto simp: set_sortBy)
  then show ?case by (simp add: sortBy_def)
qed

lemma compareY_same:
  "pointNum yCol a = pointNum yCol b \<Longrightarrow> \<not> js_positive (compareY sortOrder yCol a b)"
  by (simp add: compareY_def Let_def js_sub_same_not_positive)

lemma stable_sorted_unique:
  assumes anti: "\<And>a b. le a b \<Longrightarrow> le b a \<Longrightarrow> a = b"
    and "sorted_wrt (\<lambda>a b. le (key a) (key b)) qs"
    and "sorted_wrt (\<lambda>a b. le (key a) (key b)) rs"
    and "\<And>v. filter (\<lambda>p. key p = v) qs = filter (\<lambda>p. key p = v) rs"
  shows "qs = rs"
  using assms(2-)
proof (induction qs arbitrary: rs)
  case Nil
  show ?case
  proof (cases rs)
    case Nil
    then show ?thesis by simp
  next
    case (Cons r rs')
    with Nil.prems(3) [of "key r"] show ?thesis by simp
  qed
next
  case (Cons q qs')
  show ?case
  proof (cases rs)
    case Nil
    with Cons.prems(3) [of "key q"] show ?thesis by simp
  next
    case rs: (Cons r rs')
    have sq: "\<forall>x \<in> set qs'. le (key q) (key x)" and sq': "sorted_wrt (\<lambda>a b. le (key a) (key b)) qs'"
      using Cons.prems(1) by simp_all
    have sr: "\<forall>x \<in> set rs'. le (key r) (key x)" and sr': "sorted_wrt (\<lambda>a b. le (key a) (key b)) rs'"
      using Cons.prems(2) unfolding rs by simp_all
    have fr: "filter (\<lambda>p. key p = key r) (q # qs') = r # filter (\<lambda>p. key p = key r) rs'"
      using Cons.prems(3) [of "key r"] unfolding rs by simp
    have fq: "q # filter (\<lambda>p. key p = key q) qs' = filter (\<lambda>p. key p = key q) (r # rs')"
      using Cons.prems(3) [of "key q"] unfolding rs by simp
    have "r \<in> set (filter (\<lambda>p. key p = key r) (q # qs'))"
      unfolding fr by simp
    then have q0: "key q = key r \<or> (\<exists>x \<in> set qs'. key x = key r)"
      by auto
    have "q \<in> set (filter (\<lambda>p. key p = key q) (r # rs'))"
      unfolding fq [symmetric] by simp
    then have r0: "key r = key q \<or> (\<exists>x \<in> set rs'. key x = key q)"
      by auto
    have kk: "key q = key r"
    proof (rule ccontr)
      assume n: "key q \<noteq> key r"
      with q0 obtain x where "x \<in> set qs'" "key x = key r" by auto
      with sq have a: "le (key q) (key r)" by auto
      from n r0 obtain z where "z \<in> set rs'" "key z = key q" by auto
      with sr have b: "le (key r) (key q)" by auto
      from anti [OF a b] n show False by simp
    qed
    have hd: "q = r"
      using fq kk by simp
    have tl: "filter (\<lambda>p. key p = v) qs' = filter (\<lambda>p. key p = v) rs'" for v
    proof -
      have "filter (\<lambda>p. key p = v) (q # qs') = filter (\<lambda>p. key p = v) (q # rs')"
        using Cons.prems(3) [of v] unfolding rs hd by simp
      then show ?thesis
        by (cases "key q = v") simp_all
    qed
    have "qs' = rs'"
      using sq' sr' tl by (rule Cons.IH)
    with hd rs show ?thesis by simp
  qed
qed

lemma js_le_antisym: "js_le a b \<Longrightarrow> js_le b a \<Longrightarrow> a = b"
  by (cases a; cases b) auto

lemma sorted_wrt_related:
  "sorted_wrt R xs \<Longrightarrow> x \<in> set xs \<Longrightarrow> y \<in> set xs \<Longrightarrow> x \<noteq> y \<Longrightarrow> R x y \<or> R y x"
  by (induction xs) auto

lemma js_le_not_NaN: "js_le a b \<Longrightarrow> a \<noteq> NaN \<and> b \<noteq> NaN"
  by (cases a; cases b) auto

text \<open>
  Claim C6, as stated: for every dataset the pipeline sorts the produced pairs by their y
  value. The rows \<open>[A,1], [B,Infinity], [B,-Infinity], [C,0]\<close> with aggregation
  \<open>sum\<close> produce the group \<open>B\<close> with the value NaN, and no arrangement of the
  three produced points ascends or descends in y, since a comparison with NaN is false.
\<close>

theorem sort_nan_counterexample:
  "unsortedResult (xyData [[''A'', ''1''], [''B'', ''Infinity''], [''B'', ''-Infinity''], [''C'', ''0'']])
       (xyChart AggSum) 20
     = [[(''x'', Str ''A''), (''y'', Num (Fin 1))], [(''x'', Str ''B''), (''y'', Num NaN)],
        [(''x'', Str ''C''), (''y'', Num (Fin 0))]]
   \<and> \<not> (\<exists>qs. mset qs = mset [[(''x'', Str ''A''), (''y'', Num (Fin 1))], [(''x'', Str ''B''), (''y'', Num NaN)],
                               [(''x'', Str ''C''), (''y'', Num (Fin 0))]]
             \<and> sorted_wrt (\<lambda>a b. js_le (pointNum ''y'' a) (pointNum ''y'' b)) qs)
   \<and> \<not> (\<exists>qs. mset qs = mset [[(''x'', Str ''A''), (''y'', Num (Fin 1))], [(''x'', Str ''B''), (''y'', Num NaN)],
                               [(''x'', Str ''C''), (''y'', Num (Fin 0))]]
             \<and> sorted_wrt (\<lambda>a b. js_le (pointNum ''y'' b) (pointNum ''y'' a)) qs)"
proof -
  let ?pA = "[(''x'', Str ''A''), (''y'', Num (Fin 1))]"
  let ?pB = "[(''x'', Str ''B''), (''y'', Num NaN)]"
  let ?pC = "[(''x'', Str ''C''), (''y'', Num (Fin 0))]"
  have u: "unsortedResult (xyData [[''A'', ''1''], [''B'', ''Infinity''], [''B'', ''-Infinity''], [''C'', ''0'']])
       (xyChart AggSum) 20 = [?pA, ?pB, ?pC]"
    by (simp add: chart_defs parseFloat_1 parseFloat_zero parseFloat_Infinity parseFloat_NegInfinity
        to_double_small Let_def round_eval isWhiteSpace_def)
  have yB: "pointNum ''y'' ?pB = NaN"
    by (simp add: pointNum_def)
  have no: "\<not> sorted_wrt R qs"
    if m: "mset qs = mset [?pA, ?pB, ?pC]"
      and R: "\<And>a b. R a b \<Longrightarrow> pointNum ''y'' a \<noteq> NaN \<and> pointNum ''y'' b \<noteq> NaN" for qs R
  proof
    assume s: "sorted_wrt R qs"
    from m have "set qs = set [?pA, ?pB, ?pC]"
      by (rule mset_eq_setD)
    then have "?pA \<in> set qs" "?pB \<in> set qs" by simp_all
    moreover have "?pA \<noteq> ?pB" by simp
    ultimately have "R ?pA ?pB \<or> R ?pB ?pA"
      using s sorted_wrt_related [of R qs ?pA ?pB] by blast
    with R yB show False by blast
  qed
  have asc: "\<not> (\<exists>qs. mset qs = mset [?pA, ?pB, ?pC]
             \<and> sorted_wrt (\<lambda>a b. js_le (pointNum ''y'' a) (pointNum ''y'' b)) qs)"
    using no [where R = "\<lambda>a b. js_le (pointNum ''y'' a) (pointNum ''y'' b)"] js_le_not_NaN
    by blast
  have desc: "\<not> (\<exists>qs. mset qs = mset [?pA, ?pB, ?pC]
             \<and> sorted_wrt (\<lambda>a b. js_le (pointNum ''y'' b) (pointNum ''y'' a)) qs)"
    using no [where R = "\<lambda>a b. js_le (pointNum ''y'' b) (pointNum ''y'' a)"] js_le_not_NaN
    by blast
  from u asc desc show ?thesis by blast
qed

text \<open>
  Claim C6, amended. With the sort order \<open>asc\<close> or \<open>desc\<close> the returned sequence has
  at most \<open>limit\<close> entries, for every input. When no produced y value is NaN, it is the
  sorted list of the produced points cut to its first \<open>limit\<close> entries, where the
  sorted list is a permutation of the produced points, ascends in y for \<open>asc\<close> and
  descends for \<open>desc\<close>, and is stable (the points of one y value keep their order, so
  nothing but y is a sort key); it is the only list that is sorted and stable in this
  sense. When a produced y value is NaN the order is the engine's and nothing is stated
  about it.
\<close>

theorem sort_then_limit:
  assumes "sortOrder \<noteq> SortNone"
  shows "length (processChartData engine data chart sortOrder limit) \<le> limit
   \<and> ((\<forall>p \<in> set (unsortedResult data chart limit). \<not> isNaN (pointNum (yColName data chart) p)) \<longrightarrow>
        processChartData engine data chart sortOrder limit =
          take limit (sortBy (compareY sortOrder (yColName data chart)) (unsortedResult data chart limit))
      \<and> mset (sortBy (compareY sortOrder (yColName data chart)) (unsortedResult data chart limit))
          = mset (unsortedResult data chart limit)
      \<and> (\<forall>v. filter (\<lambda>p. pointNum (yColName data chart) p = v)
                 (sortBy (compareY sortOrder (yColName data chart)) (unsortedResult data chart limit))
             = filter (\<lambda>p. pointNum (yColName data chart) p = v) (unsortedResult data chart limit))
      \<and> sorted_wrt (\<lambda>a b. if sortOrder = SortDesc
                           then js_le (pointNum (yColName data chart) b) (pointNum (yColName data chart) a)
                           else js_le (pointNum (yColName data chart) a) (pointNum (yColName data chart) b))
          (sortBy (compareY sortOrder (yColName data chart)) (unsortedResult data chart limit))
      \<and> (\<forall>qs. sorted_wrt (\<lambda>a b. if sortOrder = SortDesc
                           then js_le (pointNum (yColName data chart) b) (pointNum (yColName data chart) a)
                           else js_le (pointNum (yColName data chart) a) (pointNum (yColName data chart) b)) qs
              \<and> (\<forall>v. filter (\<lambda>p. pointNum (yColName data chart) p = v) qs
                     = filter (\<lambda>p. pointNum (yColName data chart) p = v) (unsortedResult data chart limit))
            \<longrightarrow> qs = sortBy (compareY sortOrder (yColName data chart)) (unsortedResult data chart limit)))"
proof -
  let ?y = "pointNum (yColName data chart)"
  let ?cmp = "compareY sortOrder (yColName data chart)"
  let ?ps = "unsortedResult data chart limit"
  define L where "L = (\<lambda>u v. if sortOrder = SortDesc then js_le v u else js_le u v)"
  have Lanti: "L a b \<Longrightarrow> L b a \<Longrightarrow> a = b" for a b
    unfolding L_def by (auto intro: js_le_antisym split: if_splits)
  have Ltrans: "L a b \<Longrightarrow> L b c \<Longrightarrow> L a c" for a b c
    unfolding L_def by (auto intro: js_le_trans split: if_splits)
  have len: "length (processChartData engine data chart sortOrder limit) \<le> limit"
    by (cases "findColumn (xAxis chart) (columns data)") (simp_all add: processChartData_def)
  have rest: "processChartData engine data chart sortOrder limit = take limit (sortBy ?cmp ?ps)
      \<and> mset (sortBy ?cmp ?ps) = mset ?ps
      \<and> (\<forall>v. filter (\<lambda>p. ?y p = v) (sortBy ?cmp ?ps) = filter (\<lambda>p. ?y p = v) ?ps)
      \<and> sorted_wrt (\<lambda>a b. L (?y a) (?y b)) (sortBy ?cmp ?ps)
      \<and> (\<forall>qs. sorted_wrt (\<lambda>a b. L (?y a) (?y b)) qs
              \<and> (\<forall>v. filter (\<lambda>p. ?y p = v) qs = filter (\<lambda>p. ?y p = v) ?ps)
            \<longrightarrow> qs = sortBy ?cmp ?ps)"
    if nn: "\<forall>p \<in> set ?ps. \<not> isNaN (?y p)"
  proof -
    from nn have all: "list_all (\<lambda>p. \<not> isNaN (?y p)) ?ps"
      by (simp add: list_all_iff)
    have eq: "processChartData engine data chart sortOrder limit = take limit (sortBy ?cmp ?ps)"
    proof (cases "findColumn (xAxis chart) (columns data)")
      case None
      then show ?thesis
        by (simp add: processChartData_def unsortedResult_def sortBy_def)
    next
      case (Some xc)
      with assms all show ?thesis
        by (simp add: processChartData_def applySort_def)
    qed
    have perm: "mset (sortBy ?cmp ?ps) = mset ?ps"
      by (rule mset_sortBy)
    have stable: "filter (\<lambda>p. ?y p = v) (sortBy ?cmp ?ps) = filter (\<lambda>p. ?y p = v) ?ps" for v
      by (rule filter_sortBy_stable) (simp add: compareY_same)
    have sorted: "sorted_wrt (\<lambda>a b. L (?y a) (?y b)) (sortBy ?cmp ?ps)"
    proof (rule sorted_sortBy)
      fix a b
      assume "a \<in> set ?ps" "b \<in> set ?ps"
      with nn have ab: "?y a \<noteq> NaN" "?y b \<noteq> NaN"
        by (auto simp: isNaN_def)
      show "(\<not> js_positive (?cmp a b)) = L (?y a) (?y b)"
        using ab by (simp add: compareY_def Let_def js_positive_sub L_def)
      show "L (?y a) (?y b) \<or> L (?y b) (?y a)"
        using ab js_le_total [of "?y a" "?y b"] by (auto simp: L_def)
    next
      fix a b c
      assume "L (?y a) (?y b)" "L (?y b) (?y c)"
      then show "L (?y a) (?y c)" by (rule Ltrans)
    qed
    have uniq: "qs = sortBy ?cmp ?ps"
      if "sorted_wrt (\<lambda>a b. L (?y a) (?y b)) qs"
        and "\<forall>v. filter (\<lambda>p. ?y p = v) qs = filter (\<lambda>p. ?y p = v) ?ps" for qs
    proof (rule stable_sorted_unique [where le = L and key = ?y])
      show "L a b \<Longrightarrow> L b a \<Longrightarrow> a = b" for a b by (rule Lanti)
      show "sorted_wrt (\<lambda>a b. L (?y a) (?y b)) qs" by (rule that(1))
      show "sorted_wrt (\<lambda>a b. L (?y a) (?y b)) (sortBy ?cmp ?ps)" by (rule sorted)
      show "filter (\<lambda>p. ?y p = v) qs = filter (\<lambda>p. ?y p = v) (sortBy ?cmp ?ps)" for v
        using that(2) stable [of v] by simp
    qed
    from eq perm stable sorted uniq show ?thesis by blast
  qed
  from len rest show ?thesis unfolding L_def by blast
qed

theorem sort_then_limit_witness:
  "SortAsc \<noteq> SortNone
   \<and> list_all (\<lambda>p. \<not> isNaN (pointNum (yColName (xyData [[''A'', ''5''], [''B'', ''5''], [''C'', ''1'']]) (xyChart AggSum)) p))
        (unsortedResult (xyData [[''A'', ''5''], [''B'', ''5''], [''C'', ''1'']]) (xyChart AggSum) 2)
   \<and> processChartData sortBy (xyData [[''A'', ''5''], [''B'', ''5''], [''C'', ''1'']]) (xyChart AggSum) SortAsc 2
       = [[(''x'', Str ''C''), (''y'', Num (Fin 1))], [(''x'', Str ''A''), (''y'', Num (Fin 5))]]"
proof -
  let ?d = "xyData [[''A'', ''5''], [''B'', ''5''], [''C'', ''1'']]"
  have h: "SortAsc \<noteq> SortNone" by simp
  have u: "unsortedResult ?d (xyChart AggSum) 2
      = [[(''x'', Str ''A''), (''y'', Num (Fin 5))], [(''x'', Str ''B''), (''y'', Num (Fin 5))],
         [(''x'', Str ''C''), (''y'', Num (Fin 1))]]"
    by (simp add: chart_defs parseFloat_5 parseFloat_1 to_double_small Let_def round_eval isWhiteSpace_def)
  have y: "yColName ?d (xyChart AggSum) = ''y''"
    by (simp add: yColName_def findColumn_def toLowerCase_def lowerChar_def)
  have nn: "list_all (\<lambda>p. \<not> isNaN (pointNum (yColName ?d (xyChart AggSum)) p))
      (unsortedResult ?d (xyChart AggSum) 2)"
    unfolding u y by (simp add: pointNum_def isNaN_def)
  then have nn': "\<forall>p \<in> set (unsortedResult ?d (xyChart AggSum) 2).
      \<not> isNaN (pointNum (yColName ?d (xyChart AggSum)) p)"
    by (simp add: list_all_iff)
  from sort_then_limit [OF h, where data = ?d and chart = "xyChart AggSum" and limit = 2
      and engine = sortBy] nn'
  have "processChartData sortBy ?d (xyChart AggSum) SortAsc 2
       = take 2 (sortBy (compareY SortAsc (yColName ?d (xyChart AggSum)))
           (unsortedResult ?d (xyChart AggSum) 2))"
    by blast
  then have "processChartData sortBy ?d (xyChart AggSum) SortAsc 2
       = [[(''x'', Str ''C''), (''y'', Num (Fin 1))], [(''x'', Str ''A''), (''y'', Num (Fin 5))]]"
    unfolding u y
    by (simp add: sortBy_def compareY_def pointNum_def js_sub_def js_positive_to_double Let_def)
  with h nn show ?thesis by blast
qed

subsection \<open>Groups of the aggregated mode\<close>

lemma statsOf_Nil:
  "statsOf [] = \<lparr>g_sum = Fin 0, g_count = 0, g_min = PosInf, g_max = NegInf\<rparr>"
  by (simp add: statsOf_def)

lemma groupRow_counted:
  "groupRow False xIdx (Some yi) gs row =
     (if rowKey xIdx row \<noteq> [] \<and> \<not> isNaN (rowY yi row)
      then upsert gs (rowKey xIdx row)
             (let current = (case map_of gs (rowKey xIdx row) of
                               Some g \<Rightarrow> g
                             | None \<Rightarrow> statsOf [])
              in \<lparr>g_sum = js_add (g_sum current) (rowY yi row),
                  g_count = g_count current + 1,
                  g_min = js_min (g_min current) (rowY yi row),
                  g_max = js_max (g_max current) (rowY yi row)\<rparr>)
      else gs)"
  unfolding statsOf_Nil by (simp add: groupRow_def rowKey_def rowY_def Let_def)

lemma statsOf_snoc:
  "statsOf (ys @ [y]) =
     \<lparr>g_sum = js_add (g_sum (statsOf ys)) y, g_count = g_count (statsOf ys) + 1,
      g_min = js_min (g_min (statsOf ys)) y, g_max = js_max (g_max (statsOf ys)) y\<rparr>"
  by (simp add: statsOf_def)

lemma map_of_keyed:
  "map_of (map (\<lambda>k. (k, f k)) ks) k = (if k \<in> set ks then Some (f k) else None)"
  by (induction ks) auto

lemma upsert_new:
  "k \<notin> set ks \<Longrightarrow> upsert (map (\<lambda>k. (k, f k)) ks) k v = map (\<lambda>k. (k, f k)) ks @ [(k, v)]"
  by (induction ks) auto

lemma upsert_old:
  "k \<in> set ks \<Longrightarrow> distinct ks \<Longrightarrow>
   upsert (map (\<lambda>k. (k, f k)) ks) k v = map (\<lambda>k'. (k', if k' = k then v else f k')) ks"
  by (induction ks) auto

lemma countedRows_snoc:
  "countedRows xIdx yi (rws @ [r]) =
     countedRows xIdx yi rws @
       (if rowKey xIdx r \<noteq> [] \<and> \<not> isNaN (rowY yi r) then [r] else [])"
  by (simp add: countedRows_def)

lemma groupKeys_snoc:
  "groupKeys xIdx yi (rws @ [r]) =
     (if rowKey xIdx r \<noteq> [] \<and> \<not> isNaN (rowY yi r) \<and> rowKey xIdx r \<notin> set (groupKeys xIdx yi rws)
      then groupKeys xIdx yi rws @ [rowKey xIdx r]
      else groupKeys xIdx yi rws)"
  by (simp add: groupKeys_def countedRows_snoc)

lemma groupYs_snoc:
  "groupYs xIdx yi k (rws @ [r]) =
     groupYs xIdx yi k rws @
       (if rowKey xIdx r \<noteq> [] \<and> \<not> isNaN (rowY yi r) \<and> rowKey xIdx r = k then [rowY yi r] else [])"
  by (auto simp: groupYs_def countedRows_snoc)

lemma set_groupKeys:
  "set (groupKeys xIdx yi rws) = rowKey xIdx ` set (countedRows xIdx yi rws)"
  by (simp add: groupKeys_def)

lemma distinct_groupKeys: "distinct (groupKeys xIdx yi rws)"
  by (simp add: groupKeys_def)

lemma groupYs_absent:
  "k \<notin> set (groupKeys xIdx yi rws) \<Longrightarrow> groupYs xIdx yi k rws = []"
  by (auto simp: set_groupKeys groupYs_def filter_empty_conv)

lemma buildGroups_snoc:
  "buildGroups c xIdx yIdx (rws @ [r]) = groupRow c xIdx yIdx (buildGroups c xIdx yIdx rws) r"
  by (simp add: buildGroups_def)

lemma buildGroups_keyed:
  "buildGroups False xIdx (Some yi) rws =
     map (\<lambda>k. (k, statsOf (groupYs xIdx yi k rws))) (groupKeys xIdx yi rws)"
proof (induction rws rule: rev_induct)
  case Nil
  then show ?case
    by (simp add: buildGroups_def groupKeys_def countedRows_def)
next
  case (snoc r rws)
  let ?k = "rowKey xIdx r"
  let ?ks = "groupKeys xIdx yi rws"
  let ?f = "\<lambda>k. statsOf (groupYs xIdx yi k rws)"
  show ?case
  proof (cases "?k \<noteq> [] \<and> \<not> isNaN (rowY yi r)")
    case False
    then have "groupRow False xIdx (Some yi) (buildGroups False xIdx (Some yi) rws) r
        = buildGroups False xIdx (Some yi) rws"
      by (auto simp: groupRow_counted)
    moreover from False have "groupKeys xIdx yi (rws @ [r]) = ?ks"
      by (auto simp: groupKeys_snoc)
    moreover from False have "groupYs xIdx yi k (rws @ [r]) = groupYs xIdx yi k rws" for k
      by (auto simp: groupYs_snoc)
    ultimately show ?thesis
      using snoc.IH by (simp add: buildGroups_snoc)
  next
    case counted: True
    show ?thesis
    proof (cases "?k \<in> set ?ks")
      case True
      have ys: "groupYs xIdx yi k (rws @ [r]) =
          (if k = ?k then groupYs xIdx yi ?k rws @ [rowY yi r] else groupYs xIdx yi k rws)" for k
        using counted by (auto simp: groupYs_snoc)
      have ks: "groupKeys xIdx yi (rws @ [r]) = ?ks"
        using True by (simp add: groupKeys_snoc)
      have "groupRow False xIdx (Some yi) (map (\<lambda>k. (k, ?f k)) ?ks) r =
          map (\<lambda>k'. (k', if k' = ?k then statsOf (groupYs xIdx yi ?k rws @ [rowY yi r]) else ?f k')) ?ks"
        using counted True
        by (simp add: groupRow_counted map_of_keyed upsert_old distinct_groupKeys statsOf_snoc Let_def)
      also have "\<dots> = map (\<lambda>k. (k, statsOf (groupYs xIdx yi k (rws @ [r])))) ?ks"
        by (rule map_cong) (simp_all add: ys)
      finally show ?thesis
        using snoc.IH ks by (simp add: buildGroups_snoc)
    next
      case False
      have ys: "groupYs xIdx yi k (rws @ [r]) =
          (if k = ?k then [rowY yi r] else groupYs xIdx yi k rws)" for k
        using counted False by (auto simp: groupYs_snoc groupYs_absent)
      have ks: "groupKeys xIdx yi (rws @ [r]) = ?ks @ [?k]"
        using counted False by (simp add: groupKeys_snoc)
      have one: "statsOf [rowY yi r] =
          \<lparr>g_sum = js_add (g_sum (statsOf [])) (rowY yi r), g_count = g_count (statsOf []) + 1,
           g_min = js_min (g_min (statsOf [])) (rowY yi r),
           g_max = js_max (g_max (statsOf [])) (rowY yi r)\<rparr>"
        using statsOf_snoc [of "[]" "rowY yi r"] by simp
      have "groupRow False xIdx (Some yi) (map (\<lambda>k. (k, ?f k)) ?ks) r =
          map (\<lambda>k. (k, ?f k)) ?ks @ [(?k, statsOf [rowY yi r])]"
        using counted False
        by (simp add: groupRow_counted map_of_keyed upsert_new one Let_def)
      also have "\<dots> = map (\<lambda>k. (k, statsOf (groupYs xIdx yi k (rws @ [r])))) (?ks @ [?k])"
        using False by (auto simp: ys)
      finally show ?thesis
        using snoc.IH ks by (simp add: buildGroups_snoc)
    qed
  qed
qed

lemma reduceGroups_keyed:
  "reduceGroups agg xCol yCol (map (\<lambda>k. (k, f k)) ks) =
     map (\<lambda>k. mkPoint xCol (Str k) yCol (round2 (groupValue agg (f k)))) ks"
  by (simp add: reduceGroups_def comp_def)

text \<open>
  Claim C2, amended: with aggregation \<open>min\<close> or \<open>max\<close> and both columns resolved,
  the output holds one group for each distinct non-empty trimmed x value that has at least
  one row whose y cell \<open>parseFloat\<close> does not read as NaN, in the order of first
  appearance, then sorted and cut to \<open>limit\<close>; an x value none of whose rows has such
  a y cell gets no group. The value of a group is the running extremum of the y values of
  its rows, with 0 in place of an extremum that is still the initial sentinel (a minimum
  of \<open>Infinity\<close>, a maximum of \<open>-Infinity\<close>), rounded to two decimals.
\<close>

theorem min_max_groups:
  assumes x: "findColumn (xAxis chart) (columns data) = Some xc"
    and y: "findColumn (yAxis chart) (columns data) = Some yc"
    and agg: "aggregation chart = AggMin \<or> aggregation chart = AggMax"
  shows "processChartData engine data chart sortOrder limit =
      take limit (applySort engine sortOrder (name yc)
        (map (\<lambda>k. mkPoint (name xc) (Str k) (name yc)
               (round2
                 (if aggregation chart = AggMin
                  then (if foldl js_min PosInf (groupYs (index xc) (index yc) k (rows data)) = PosInf
                        then Fin 0
                        else foldl js_min PosInf (groupYs (index xc) (index yc) k (rows data)))
                  else (if foldl js_max NegInf (groupYs (index xc) (index yc) k (rows data)) = NegInf
                        then Fin 0
                        else foldl js_max NegInf (groupYs (index xc) (index yc) k (rows data))))))
           (groupKeys (index xc) (index yc) (rows data))))
   \<and> distinct (groupKeys (index xc) (index yc) (rows data))
   \<and> set (groupKeys (index xc) (index yc) (rows data)) =
       rowKey (index xc) `
         {row \<in> set (rows data). rowKey (index xc) row \<noteq> [] \<and> \<not> isNaN (rowY (index yc) row)}"
proof -
  from agg have nc: "aggregation chart \<noteq> AggCount" "aggregation chart \<noteq> AggNone"
    by auto
  have u: "unsortedResult data chart limit =
      map (\<lambda>k. mkPoint (name xc) (Str k) (name yc)
             (round2 (groupValue (aggregation chart)
                (statsOf (groupYs (index xc) (index yc) k (rows data))))))
        (groupKeys (index xc) (index yc) (rows data))"
    using x y nc
    by (simp add: unsortedResult_def yColName_def Let_def buildGroups_keyed reduceGroups_keyed)
  have v: "groupValue (aggregation chart) (statsOf ys) =
      (if aggregation chart = AggMin
       then (if foldl js_min PosInf ys = PosInf then Fin 0 else foldl js_min PosInf ys)
       else (if foldl js_max NegInf ys = NegInf then Fin 0 else foldl js_max NegInf ys))" for ys
    using agg by (auto simp: groupValue_def statsOf_def)
  have p: "processChartData engine data chart sortOrder limit =
      take limit (applySort engine sortOrder (name yc) (unsortedResult data chart limit))"
    using x y by (simp add: processChartData_def yColName_def)
  have k: "set (groupKeys (index xc) (index yc) (rows data)) =
       rowKey (index xc) `
         {row \<in> set (rows data). rowKey (index xc) row \<noteq> [] \<and> \<not> isNaN (rowY (index yc) row)}"
    by (simp add: set_groupKeys countedRows_def)
  from p u v k distinct_groupKeys show ?thesis by simp
qed

text \<open>
  Claim C2, as stated: every distinct non-empty x value yields a group, with the value 0
  when no numeric y was seen. The x value \<open>A\<close> of the only row has the y cell \<open>x\<close>,
  and the output has no group at all.
\<close>

theorem min_max_missing_group_counterexample:
  "processChartData sortBy (xyData [[''A'', ''x'']]) (xyChart AggMin) SortNone 20 = []
   \<and> trim_js (cell_or [''A'', ''x''] 0 []) = ''A''"
  by (simp add: chart_defs scan_defs Let_def isWhiteSpace_def)

theorem min_max_groups_witness:
  "findColumn (xAxis (xyChart AggMin))
      (columns (xyData [[''A'', ''3''], [''B'', ''x''], [''A'', ''1''], [''C'', ''Infinity'']]))
     = Some \<lparr>name = ''x'', type = TString, index = 0\<rparr>
   \<and> findColumn (yAxis (xyChart AggMin))
      (columns (xyData [[''A'', ''3''], [''B'', ''x''], [''A'', ''1''], [''C'', ''Infinity'']]))
     = Some \<lparr>name = ''y'', type = TNumber, index = 1\<rparr>
   \<and> aggregation (xyChart AggMin) = AggMin
   \<and> processChartData sortBy (xyData [[''A'', ''3''], [''B'', ''x''], [''A'', ''1''], [''C'', ''Infinity'']])
        (xyChart AggMin) SortNone 20
     = [[(''x'', Str ''A''), (''y'', Num (Fin 1))], [(''x'', Str ''C''), (''y'', Num (Fin 0))]]"
proof -
  let ?d = "xyData [[''A'', ''3''], [''B'', ''x''], [''A'', ''1''], [''C'', ''Infinity'']]"
  have x: "findColumn (xAxis (xyChart AggMin)) (columns ?d)
     = Some \<lparr>name = ''x'', type = TString, index = 0\<rparr>"
    by (simp add: findColumn_def toLowerCase_def lowerChar_def)
  have y: "findColumn (yAxis (xyChart AggMin)) (columns ?d)
     = Some \<lparr>name = ''y'', type = TNumber, index = 1\<rparr>"
    by (simp add: findColumn_def toLowerCase_def lowerChar_def)
  have a: "aggregation (xyChart AggMin) = AggMin \<or> aggregation (xyChart AggMin) = AggMax"
    by simp
  from min_max_groups [OF x y a, where sortOrder = SortNone and limit = 20 and engine = sortBy]
  have "processChartData sortBy ?d (xyChart AggMin) SortNone 20
     = [[(''x'', Str ''A''), (''y'', Num (Fin 1))], [(''x'', Str ''C''), (''y'', Num (Fin 0))]]"
    by (simp add: applySort_def groupKeys_def groupYs_def countedRows_def rowKey_def rowY_def
        cell_or_def trim_js_def isWhiteSpace_def parseFloat_3 parseFloat_1 parseFloat_x parseFloat_Infinity isNaN_def mkPoint_def round2_def
        to_double_small round_eval)
  with x y show ?thesis by simp
qed

subsection \<open>Rows without a y cell\<close>






end
